theory Spec2Isabelle
  imports Main "HOL-Library.Sublist"
begin

section \<open>Mount lookup filters (\<^verbatim>\<open>ansible/filter_plugins/mounts.py\<close>)\<close>

text \<open>
  The module defines three filters for a templating engine: two linear searches over the
  list of mount facts and one string transform. A mount fact is a Python \<^verbatim>\<open>dict\<close>,
  so a subscript on a missing key raises \<^verbatim>\<open>KeyError\<close>; the search itself raises
  \<^verbatim>\<open>AnsibleFilterError\<close> when it runs off the end of the list. Both are values of
  the type \<open>error\<close> below, and every lookup returns \<open>error + string\<close>.
\<close>

subsection \<open>Data\<close>

datatype error = AnsibleFilterError string | KeyError string

type_synonym mount_record = "string \<rightharpoonup> string"

text \<open>\<^verbatim>\<open>m[k]\<close> on a dict: the value, or \<^verbatim>\<open>KeyError(k)\<close>.\<close>

definition getitem :: "mount_record \<Rightarrow> string \<Rightarrow> error + string" where
  "getitem m k = (case m k of None \<Rightarrow> Inl (KeyError k) | Some v \<Rightarrow> Inr v)"

text \<open>The f-string fragment \<^verbatim>\<open>'{s}'\<close>: the string between two apostrophes.\<close>

definition quoted :: "string \<Rightarrow> string" where
  "quoted s = CHR 0x27 # s @ [CHR 0x27]"

subsection \<open>The two lookups\<close>

text \<open>
  The argument of \<^verbatim>\<open>AnsibleFilterError\<close> in \<^verbatim>\<open>device_for_mount\<close>. The conditional
  expression \<^verbatim>\<open>... if fstype else ""\<close> tests the truth value of \<^verbatim>\<open>fstype\<close>:
  \<^verbatim>\<open>None\<close> and the empty string are both false.
\<close>

definition device_failure_message :: "string \<Rightarrow> string option \<Rightarrow> string" where
  "device_failure_message mountpoint fstype =
     ''No active mount found for '' @ quoted mountpoint @
     (case fstype of
        None \<Rightarrow> []
      | Some f \<Rightarrow> if f \<noteq> [] then '' with fstype '' @ quoted f else [])"

text \<open>
  \<^verbatim>\<open>and\<close> and \<^verbatim>\<open>or\<close> evaluate from the left and stop early: \<^verbatim>\<open>m["fstype"]\<close> is
  read only when \<^verbatim>\<open>m["mount"]\<close> equals the mount point and a filter was passed.
\<close>

fun device_for_mount :: "string \<Rightarrow> mount_record list \<Rightarrow> string option \<Rightarrow> error + string" where
  "device_for_mount mountpoint [] fstype =
     Inl (AnsibleFilterError (device_failure_message mountpoint fstype))"
| "device_for_mount mountpoint (m # mounts) fstype =
     (case getitem m ''mount'' of
        Inl e \<Rightarrow> Inl e
      | Inr mt \<Rightarrow>
          if mt = mountpoint then
            (case fstype of
               None \<Rightarrow> getitem m ''device''
             | Some f \<Rightarrow>
                 (case getitem m ''fstype'' of
                    Inl e \<Rightarrow> Inl e
                  | Inr ft \<Rightarrow>
                      if ft = f then getitem m ''device''
                      else device_for_mount mountpoint mounts fstype))
          else device_for_mount mountpoint mounts fstype)"

fun uuid_for_mount :: "string \<Rightarrow> mount_record list \<Rightarrow> error + string" where
  "uuid_for_mount mountpoint [] =
     Inl (AnsibleFilterError (''No active mount found for '' @ quoted mountpoint))"
| "uuid_for_mount mountpoint (m # mounts) =
     (case getitem m ''mount'' of
        Inl e \<Rightarrow> Inl e
      | Inr mt \<Rightarrow>
          if mt = mountpoint then getitem m ''uuid''
          else uuid_for_mount mountpoint mounts)"

subsection \<open>The unit name\<close>

text \<open>
  \<^verbatim>\<open>str.lstrip(chars)\<close> drops leading characters that occur in \<^verbatim>\<open>chars\<close>.
  \<^verbatim>\<open>str.replace(old, new)\<close> replaces the non-overlapping occurrences of \<^verbatim>\<open>old\<close>
  from the left; for an empty \<^verbatim>\<open>old\<close> it puts \<^verbatim>\<open>new\<close> before each character and
  at the end.
\<close>

fun lstrip :: "string \<Rightarrow> string \<Rightarrow> string" where
  "lstrip chars [] = []"
| "lstrip chars (c # s) = (if c \<in> set chars then lstrip chars s else c # s)"

fun replace :: "string \<Rightarrow> string \<Rightarrow> string \<Rightarrow> string" where
  "replace old new [] = (if old = [] then new else [])"
| "replace old new (c # s) =
     (if old = [] then new @ c # replace old new s
      else if prefix old (c # s) then new @ replace old new (drop (length old) (c # s))
      else c # replace old new s)"

definition to_systemd_mount_unit :: "string \<Rightarrow> string" where
  "to_systemd_mount_unit path = replace ''/'' ''-'' (lstrip ''/'' path) @ ''.mount''"

text \<open>
  The transform as the specification words it: strip all leading \<^verbatim>\<open>/\<close>, replace every
  remaining \<^verbatim>\<open>/\<close> with \<^verbatim>\<open>-\<close>, append \<^verbatim>\<open>.mount\<close>.
\<close>

definition unit_name_spec :: "string \<Rightarrow> string" where
  "unit_name_spec path =
     map (\<lambda>c. if c = CHR ''/'' then CHR ''-'' else c) (dropWhile (\<lambda>c. c = CHR ''/'') path)
     @ ''.mount''"

subsection \<open>Registration\<close>

text \<open>
  \<^verbatim>\<open>FilterModule.filters\<close> returns a dict literal from filter names to the three
  functions, which have three different signatures.
\<close>

datatype filter_fn =
    DeviceFilter "string \<Rightarrow> mount_record list \<Rightarrow> string option \<Rightarrow> error + string"
  | UuidFilter "string \<Rightarrow> mount_record list \<Rightarrow> error + string"
  | UnitFilter "string \<Rightarrow> string"

definition filters :: "string \<rightharpoonup> filter_fn" where
  "filters =
     [''device_for_mount'' \<mapsto> DeviceFilter device_for_mount,
      ''uuid_for_mount'' \<mapsto> UuidFilter uuid_for_mount,
      ''to_systemd_mount_unit'' \<mapsto> UnitFilter to_systemd_mount_unit]"

subsection \<open>The lookups on an object store\<close>

text \<open>
  Python passes the list of mounts and its dicts by reference, so whether a call changes
  them is a question about the object store. Here the store holds the list objects (each a
  sequence of references) and the dict objects; strings are immutable in Python and stay
  values. Each function takes the store and returns it with its result. The
  \<^verbatim>\<open>for\<close> loop is the list iterator: before each step it compares its index to the
  current length of the list object and reads the element at that index.
\<close>

type_synonym addr = nat

record store =
  list_at :: "addr \<Rightarrow> addr list"
  dict_at :: "addr \<Rightarrow> mount_record"

function device_for_mount_from ::
  "nat \<Rightarrow> string \<Rightarrow> addr \<Rightarrow> string option \<Rightarrow> store \<Rightarrow> (error + string) \<times> store" where
  "device_for_mount_from i mountpoint mounts fstype s =
     (if i < length (list_at s mounts) then
        (case getitem (dict_at s (list_at s mounts ! i)) ''mount'' of
           Inl e \<Rightarrow> (Inl e, s)
         | Inr mt \<Rightarrow>
             if mt = mountpoint then
               (case fstype of
                  None \<Rightarrow> (getitem (dict_at s (list_at s mounts ! i)) ''device'', s)
                | Some f \<Rightarrow>
                    (case getitem (dict_at s (list_at s mounts ! i)) ''fstype'' of
                       Inl e \<Rightarrow> (Inl e, s)
                     | Inr ft \<Rightarrow>
                         if ft = f
                         then (getitem (dict_at s (list_at s mounts ! i)) ''device'', s)
                         else device_for_mount_from (Suc i) mountpoint mounts fstype s))
             else device_for_mount_from (Suc i) mountpoint mounts fstype s)
      else (Inl (AnsibleFilterError (device_failure_message mountpoint fstype)), s))"
  by pat_completeness auto
termination
  by (relation "measure (\<lambda>(i, mountpoint, mounts, fstype, s). length (list_at s mounts) - i)")
    auto

definition device_for_mount_st ::
  "string \<Rightarrow> addr \<Rightarrow> string option \<Rightarrow> store \<Rightarrow> (error + string) \<times> store" where
  "device_for_mount_st mountpoint mounts fstype s =
     device_for_mount_from 0 mountpoint mounts fstype s"

function uuid_for_mount_from ::
  "nat \<Rightarrow> string \<Rightarrow> addr \<Rightarrow> store \<Rightarrow> (error + string) \<times> store" where
  "uuid_for_mount_from i mountpoint mounts s =
     (if i < length (list_at s mounts) then
        (case getitem (dict_at s (list_at s mounts ! i)) ''mount'' of
           Inl e \<Rightarrow> (Inl e, s)
         | Inr mt \<Rightarrow>
             if mt = mountpoint
             then (getitem (dict_at s (list_at s mounts ! i)) ''uuid'', s)
             else uuid_for_mount_from (Suc i) mountpoint mounts s)
      else (Inl (AnsibleFilterError (''No active mount found for '' @ quoted mountpoint)), s))"
  by pat_completeness auto
termination
  by (relation "measure (\<lambda>(i, mountpoint, mounts, s). length (list_at s mounts) - i)") auto

definition uuid_for_mount_st ::
  "string \<Rightarrow> addr \<Rightarrow> store \<Rightarrow> (error + string) \<times> store" where
  "uuid_for_mount_st mountpoint mounts s = uuid_for_mount_from 0 mountpoint mounts s"

text \<open>\<^verbatim>\<open>lstrip\<close>, \<^verbatim>\<open>replace\<close> and \<^verbatim>\<open>+\<close> build new strings and touch no object.\<close>

definition to_systemd_mount_unit_st :: "string \<Rightarrow> store \<Rightarrow> string \<times> store" where
  "to_systemd_mount_unit_st path s = (to_systemd_mount_unit path, s)"

subsection \<open>The input contract and sample facts\<close>

text \<open>
  The host hands over records that carry at least the four string fields \<^verbatim>\<open>mount\<close>,
  \<^verbatim>\<open>device\<close>, \<^verbatim>\<open>fstype\<close> and \<^verbatim>\<open>uuid\<close>.
\<close>

definition mount_record_ok :: "mount_record \<Rightarrow> bool" where
  "mount_record_ok r \<longleftrightarrow>
     r ''mount'' \<noteq> None \<and> r ''device'' \<noteq> None \<and> r ''fstype'' \<noteq> None \<and> r ''uuid'' \<noteq> None"

text \<open>
  The condition of the \<^verbatim>\<open>if\<close> in the loop of \<^verbatim>\<open>device_for_mount\<close>, read on a record
  that has its fields (\<^verbatim>\<open>uuid_for_mount\<close> has the same condition without a filter).
\<close>

definition matches :: "string \<Rightarrow> string option \<Rightarrow> mount_record \<Rightarrow> bool" where
  "matches mountpoint fstype r \<longleftrightarrow>
     r ''mount'' = Some mountpoint \<and> (fstype = None \<or> r ''fstype'' = fstype)"

definition root_ext4 :: mount_record where
  "root_ext4 = [''mount'' \<mapsto> ''/'', ''device'' \<mapsto> ''/dev/sda2'',
                ''fstype'' \<mapsto> ''ext4'', ''uuid'' \<mapsto> ''000-root'']"

definition data_ext4 :: mount_record where
  "data_ext4 = [''mount'' \<mapsto> ''/data'', ''device'' \<mapsto> ''/dev/sda1'',
                ''fstype'' \<mapsto> ''ext4'', ''uuid'' \<mapsto> ''abc-123'']"

definition data_btrfs :: mount_record where
  "data_btrfs = [''mount'' \<mapsto> ''/data'', ''device'' \<mapsto> ''/dev/sdb1'',
                 ''fstype'' \<mapsto> ''btrfs'', ''uuid'' \<mapsto> ''def-456'']"

definition data_blank :: mount_record where
  "data_blank = [''mount'' \<mapsto> ''/data'', ''device'' \<mapsto> ''/dev/sdc1'',
                 ''fstype'' \<mapsto> [], ''uuid'' \<mapsto> ''ghi-789'']"

text \<open>Records outside the contract: one field or more is missing.\<close>

definition boot_no_fstype :: mount_record where
  "boot_no_fstype = [''mount'' \<mapsto> ''/boot'', ''device'' \<mapsto> ''/dev/sda3'',
                     ''uuid'' \<mapsto> ''jkl-012'']"

definition no_mount :: mount_record where
  "no_mount = [''device'' \<mapsto> ''/dev/sdd1'', ''fstype'' \<mapsto> ''ext4'',
               ''uuid'' \<mapsto> ''mno-345'']"

definition data_only_mount :: mount_record where
  "data_only_mount = [''mount'' \<mapsto> ''/data'']"

text \<open>
  What the loop of \<^verbatim>\<open>device_for_mount\<close> needs of a record to go on to the next one:
  \<^verbatim>\<open>m["mount"]\<close> can be read, and either it is another mount point, or a filter was
  passed, \<^verbatim>\<open>m["fstype"]\<close> can be read and differs from the filter. No other field is
  read on such a record. Without a filter this is the loop of \<^verbatim>\<open>uuid_for_mount\<close>.
\<close>

definition passed_over :: "string \<Rightarrow> string option \<Rightarrow> mount_record \<Rightarrow> bool" where
  "passed_over mountpoint fstype r \<longleftrightarrow>
     (case r ''mount'' of
        None \<Rightarrow> False
      | Some mt \<Rightarrow>
          mt \<noteq> mountpoint \<or>
          (case fstype of
             None \<Rightarrow> False
           | Some f \<Rightarrow> (case r ''fstype'' of None \<Rightarrow> False | Some ft \<Rightarrow> ft \<noteq> f)))"

definition data_xfs_bare :: mount_record where
  "data_xfs_bare = [''mount'' \<mapsto> ''/data'', ''fstype'' \<mapsto> ''xfs'']"

definition data_ext4_no_device :: mount_record where
  "data_ext4_no_device = [''mount'' \<mapsto> ''/data'', ''fstype'' \<mapsto> ''ext4'',
                          ''uuid'' \<mapsto> ''pqr-678'']"

section \<open>Properties of the unit name\<close>

lemma lstrip_dropWhile: "lstrip chars s = dropWhile (\<lambda>c. c \<in> set chars) s"
  by (induction s) simp_all

lemma replace_single: "replace [a] [b] s = map (\<lambda>c. if c = a then b else c) s"
  by (induction s) auto

lemma to_systemd_mount_unit_spec: "to_systemd_mount_unit path = unit_name_spec path"
  by (simp add: to_systemd_mount_unit_def unit_name_spec_def lstrip_dropWhile replace_single)

text \<open>
  C4: for every string \<open>path\<close>, \<open>to_systemd_mount_unit path\<close> is the string obtained by
  stripping all leading \<^verbatim>\<open>/\<close>, replacing every remaining \<^verbatim>\<open>/\<close> with \<^verbatim>\<open>-\<close> and
  appending \<^verbatim>\<open>.mount\<close>. The function has no failure branch: it returns a string for
  every string. In particular \<^verbatim>\<open>/mnt/foo\<close> gives \<^verbatim>\<open>mnt-foo.mount\<close> and \<^verbatim>\<open>/\<close> gives
  \<^verbatim>\<open>.mount\<close>.
\<close>

theorem to_systemd_mount_unit_transform:
  "to_systemd_mount_unit path = unit_name_spec path
   \<and> to_systemd_mount_unit ''/mnt/foo'' = ''mnt-foo.mount''
   \<and> to_systemd_mount_unit ''/'' = ''.mount''"
  by (simp add: to_systemd_mount_unit_spec) (simp add: unit_name_spec_def)

lemma to_systemd_mount_unit_no_slash: "CHR ''/'' \<notin> set (to_systemd_mount_unit path)"
  by (auto simp: to_systemd_mount_unit_spec unit_name_spec_def)

lemma lstrip_no_slash: "CHR ''/'' \<notin> set s \<Longrightarrow> lstrip ''/'' s = s"
  by (cases s) auto

lemma replace_no_slash: "CHR ''/'' \<notin> set s \<Longrightarrow> replace ''/'' ''-'' s = s"
  by (induction s) auto

text \<open>
  Applying the transform to its own result never gives the result back: the result has no
  \<^verbatim>\<open>/\<close> left, so the second application only appends another \<^verbatim>\<open>.mount\<close>.
\<close>

lemma to_systemd_mount_unit_twice:
  "to_systemd_mount_unit (to_systemd_mount_unit path) = to_systemd_mount_unit path @ ''.mount''"
proof -
  have "CHR ''/'' \<notin> set (to_systemd_mount_unit path)"
    by (rule to_systemd_mount_unit_no_slash)
  then have "replace ''/'' ''-'' (lstrip ''/'' (to_systemd_mount_unit path)) = to_systemd_mount_unit path"
    by (simp add: lstrip_no_slash replace_no_slash)
  then show ?thesis
    by (subst to_systemd_mount_unit_def) simp
qed

text \<open>
  C6: the result of \<open>to_systemd_mount_unit\<close> has no leading \<^verbatim>\<open>/\<close>, for every string
  \<open>path\<close>, hence in particular whenever re-application gives the result back; and
  \<^verbatim>\<open>/a/b/c\<close> gives \<^verbatim>\<open>a-b-c.mount\<close>.
\<close>

theorem to_systemd_mount_unit_no_leading_slash:
  "\<not> prefix ''/'' (to_systemd_mount_unit path)
   \<and> to_systemd_mount_unit ''/a/b/c'' = ''a-b-c.mount''"
proof
  show "\<not> prefix ''/'' (to_systemd_mount_unit path)"
  proof
    assume "prefix ''/'' (to_systemd_mount_unit path)"
    then have "CHR ''/'' \<in> set (to_systemd_mount_unit path)"
      by (auto simp: prefix_def)
    then show False
      by (simp add: to_systemd_mount_unit_no_slash)
  qed
  show "to_systemd_mount_unit ''/a/b/c'' = ''a-b-c.mount''"
    by (simp add: to_systemd_mount_unit_def)
qed

section \<open>Properties of the lookups\<close>

text \<open>
  One step of each loop: a record that satisfies the condition ends the search, a record
  that has its fields and fails the condition is passed over.
\<close>

lemma device_for_mount_hit:
  "matches m fs r \<Longrightarrow> device_for_mount m (r # rs) fs = getitem r ''device''"
  by (cases fs) (auto simp: matches_def getitem_def)

lemma device_for_mount_skip:
  "mount_record_ok r \<Longrightarrow> \<not> matches m fs r \<Longrightarrow>
   device_for_mount m (r # rs) fs = device_for_mount m rs fs"
  by (cases fs) (auto simp: matches_def mount_record_ok_def getitem_def)

lemma device_for_mount_find:
  "\<forall>r\<in>set mounts. mount_record_ok r \<Longrightarrow>
   device_for_mount m mounts fs =
     (case find (matches m fs) mounts of
        None \<Rightarrow> Inl (AnsibleFilterError (device_failure_message m fs))
      | Some r \<Rightarrow> getitem r ''device'')"
proof (induction mounts)
  case Nil
  show ?case by simp
next
  case (Cons r rs)
  show ?case
  proof (cases "matches m fs r")
    case True
    then show ?thesis
      by (simp add: device_for_mount_hit del: device_for_mount.simps(2))
  next
    case False
    with Cons show ?thesis
      by (simp add: device_for_mount_skip del: device_for_mount.simps(2))
  qed
qed

lemma uuid_for_mount_find:
  "\<forall>r\<in>set mounts. mount_record_ok r \<Longrightarrow>
   uuid_for_mount m mounts =
     (case find (\<lambda>r. r ''mount'' = Some m) mounts of
        None \<Rightarrow> Inl (AnsibleFilterError (''No active mount found for '' @ quoted m))
      | Some r \<Rightarrow> getitem r ''uuid'')"
  by (induction mounts) (auto simp: mount_record_ok_def getitem_def)

text \<open>The first element that satisfies a predicate, by its index.\<close>

lemma find_first_index:
  "find P xs = Some x \<Longrightarrow> \<exists>i<length xs. xs ! i = x \<and> P (xs ! i) \<and> (\<forall>j<i. \<not> P (xs ! j))"
  by (auto simp: find_Some_iff)

text \<open>What the failure messages contain.\<close>

lemma failure_message_contains_mount: "sublist m (device_failure_message m fs)"
proof -
  have eq: "device_failure_message m fs =
      (''No active mount found for '' @ [CHR 0x27]) @ m @
      (CHR 0x27 # (case fs of None \<Rightarrow> []
           | Some f \<Rightarrow> if f \<noteq> [] then '' with fstype '' @ quoted f else []))"
    by (simp add: device_failure_message_def quoted_def)
  show ?thesis
    unfolding eq by (rule sublist_appendI)
qed

lemma failure_message_contains_fstype:
  assumes "f \<noteq> []"
  shows "sublist ('' with fstype '' @ quoted f) (device_failure_message m (Some f))"
proof -
  have eq: "device_failure_message m (Some f) =
      (''No active mount found for '' @ quoted m) @ ('' with fstype '' @ quoted f)"
    using assms by (simp add: device_failure_message_def)
  show ?thesis
    unfolding eq by (rule sublist_append_leftI)
qed

lemma uuid_message_contains_mount: "sublist m (''No active mount found for '' @ quoted m)"
  using failure_message_contains_mount [of m None] by (simp add: device_failure_message_def)

text \<open>The sample records: which of them keep the contract, and their fields.\<close>

lemma sample_records_ok:
  "mount_record_ok root_ext4" "mount_record_ok data_ext4" "mount_record_ok data_btrfs"
  "mount_record_ok data_blank"
  by (simp_all add: mount_record_ok_def root_ext4_def data_ext4_def data_btrfs_def
      data_blank_def)

lemma sample_fields:
  "root_ext4 ''mount'' = Some ''/''" "root_ext4 ''device'' = Some ''/dev/sda2''"
  "root_ext4 ''fstype'' = Some ''ext4''" "root_ext4 ''uuid'' = Some ''000-root''"
  "data_ext4 ''mount'' = Some ''/data''" "data_ext4 ''device'' = Some ''/dev/sda1''"
  "data_ext4 ''fstype'' = Some ''ext4''" "data_ext4 ''uuid'' = Some ''abc-123''"
  "data_btrfs ''mount'' = Some ''/data''" "data_btrfs ''device'' = Some ''/dev/sdb1''"
  "data_btrfs ''fstype'' = Some ''btrfs''" "data_btrfs ''uuid'' = Some ''def-456''"
  "data_blank ''mount'' = Some ''/data''" "data_blank ''device'' = Some ''/dev/sdc1''"
  "data_blank ''fstype'' = Some []" "data_blank ''uuid'' = Some ''ghi-789''"
  by (simp_all add: root_ext4_def data_ext4_def data_btrfs_def data_blank_def)

lemma broken_fields:
  "boot_no_fstype ''mount'' = Some ''/boot''" "boot_no_fstype ''device'' = Some ''/dev/sda3''"
  "boot_no_fstype ''fstype'' = None" "boot_no_fstype ''uuid'' = Some ''jkl-012''"
  "no_mount ''mount'' = None"
  "data_only_mount ''mount'' = Some ''/data''" "data_only_mount ''device'' = None"
  "data_only_mount ''fstype'' = None" "data_only_mount ''uuid'' = None"
  by (simp_all add: boot_no_fstype_def no_mount_def data_only_mount_def)

text \<open>The result of \<open>device_for_mount\<close> on records that have their fields.\<close>

lemma device_for_mount_Inr_iff:
  assumes "\<forall>r\<in>set mounts. mount_record_ok r"
  shows "device_for_mount m mounts fs = Inr d \<longleftrightarrow>
         (\<exists>r. find (matches m fs) mounts = Some r \<and> r ''device'' = Some d)"
  using assms
  by (auto simp: device_for_mount_find getitem_def split: option.splits)

lemma device_for_mount_failure:
  assumes "\<forall>r\<in>set mounts. mount_record_ok r" and "\<forall>r\<in>set mounts. \<not> matches m fs r"
  shows "device_for_mount m mounts fs = Inl (AnsibleFilterError (device_failure_message m fs))"
proof -
  from assms(2) have "find (matches m fs) mounts = None"
    by (auto simp: find_None_iff)
  with assms(1) show ?thesis
    by (simp add: device_for_mount_find)
qed

lemma uuid_for_mount_failure:
  assumes "\<forall>r\<in>set mounts. mount_record_ok r" and "\<forall>r\<in>set mounts. r ''mount'' \<noteq> Some m"
  shows "uuid_for_mount m mounts =
         Inl (AnsibleFilterError (''No active mount found for '' @ quoted m))"
proof -
  from assms(2) have "find (\<lambda>r. r ''mount'' = Some m) mounts = None"
    by (auto simp: find_None_iff)
  with assms(1) show ?thesis
    by (simp add: uuid_for_mount_find)
qed

lemma matches_None: "matches m None = (\<lambda>r. r ''mount'' = Some m)"
  by (simp add: fun_eq_iff matches_def)

lemma first_match_index:
  assumes "\<exists>x\<in>set xs. P x"
  shows "\<exists>i<length xs. P (xs ! i) \<and> (\<forall>j<i. \<not> P (xs ! j)) \<and> find P xs = Some (xs ! i)"
proof -
  from assms have "find P xs \<noteq> None"
    by (auto simp: find_None_iff)
  then obtain x where x: "find P xs = Some x"
    by blast
  from find_first_index [OF x] x show ?thesis
    by blast
qed

text \<open>
  C1: when the records have their fields and some record of \<open>mounts\<close> has
  \<^verbatim>\<open>mount == m\<close>, \<open>device_for_mount m mounts\<close> without a filter returns the
  \<^verbatim>\<open>device\<close> of the first such record in list order: there is an index \<open>i\<close> whose
  record has \<^verbatim>\<open>mount == m\<close>, no earlier record has, and the result is that record's
  device.
\<close>

theorem device_for_mount_first_match:
  assumes "\<forall>r\<in>set mounts. mount_record_ok r"
    and "\<exists>r\<in>set mounts. r ''mount'' = Some m"
  shows "\<exists>i<length mounts.
           (mounts ! i) ''mount'' = Some m
         \<and> (\<forall>j<i. (mounts ! j) ''mount'' \<noteq> Some m)
         \<and> (\<exists>d. (mounts ! i) ''device'' = Some d \<and> device_for_mount m mounts None = Inr d)"
proof -
  have m_None: "matches m None r \<longleftrightarrow> r ''mount'' = Some m" for r
    by (simp add: matches_def)
  from assms(2) have "find (matches m None) mounts \<noteq> None"
    by (auto simp: find_None_iff m_None)
  then obtain r where r: "find (matches m None) mounts = Some r"
    by blast
  from find_first_index [OF r]
  obtain i where i: "i < length mounts" "mounts ! i = r" "matches m None (mounts ! i)"
      "\<forall>j<i. \<not> matches m None (mounts ! j)"
    by blast
  from i(1,2) assms(1) have "mount_record_ok r"
    using nth_mem by blast
  then obtain d where d: "r ''device'' = Some d"
    by (auto simp: mount_record_ok_def)
  have "device_for_mount m mounts None = Inr d"
    using assms(1) r d by (simp add: device_for_mount_find getitem_def)
  with i d show ?thesis
    unfolding m_None by blast
qed

text \<open>
  Two records are mounted at \<^verbatim>\<open>/data\<close>, after one that is not: the device of the first
  of the two is returned.
\<close>

theorem device_for_mount_first_match_witness:
  "mount_record_ok root_ext4 \<and> mount_record_ok data_ext4 \<and> mount_record_ok data_btrfs
   \<and> root_ext4 ''mount'' = Some ''/''
   \<and> data_ext4 ''mount'' = Some ''/data'' \<and> data_btrfs ''mount'' = Some ''/data''
   \<and> data_ext4 ''device'' = Some ''/dev/sda1''
   \<and> device_for_mount ''/data'' [root_ext4, data_ext4, data_btrfs] None = Inr ''/dev/sda1''"
proof -
  let ?ms = "[root_ext4, data_ext4, data_btrfs]"
  have ok: "\<forall>r\<in>set ?ms. mount_record_ok r"
    by (simp add: sample_records_ok)
  have ex: "\<exists>r\<in>set ?ms. r ''mount'' = Some ''/data''"
    by (simp add: sample_fields)
  from device_for_mount_first_match [OF ok ex]
  obtain i d where i: "i < length ?ms" "(?ms ! i) ''mount'' = Some ''/data''"
    "\<forall>j<i. (?ms ! j) ''mount'' \<noteq> Some ''/data''"
    "(?ms ! i) ''device'' = Some d"
    "device_for_mount ''/data'' ?ms None = Inr d"
    by blast
  from i(1) have "i = 0 \<or> i = 1 \<or> i = 2"
    by auto
  then have "i = 1"
  proof (elim disjE)
    assume "i = 0"
    with i(2) show ?thesis by (simp add: sample_fields)
  next
    assume "i = 1"
    then show ?thesis .
  next
    assume "i = 2"
    moreover have "(1::nat) < 2"
      by simp
    ultimately have "(?ms ! 1) ''mount'' \<noteq> Some ''/data''"
      using i(3) by blast
    then show ?thesis by (simp add: sample_fields)
  qed
  with i(4,5) have "device_for_mount ''/data'' ?ms None = Inr ''/dev/sda1''"
    by (simp add: sample_fields)
  then show ?thesis
    by (simp add: sample_records_ok sample_fields)
qed

text \<open>
  C2: with a filter \<open>f\<close>, \<open>device_for_mount m mounts (Some f)\<close> returns a device only if
  it is the device of a record with both \<^verbatim>\<open>mount == m\<close> and \<^verbatim>\<open>fstype == f\<close>; when no
  record has both, the call fails with the lookup failure, whether or not a record with
  \<^verbatim>\<open>mount == m\<close> and another fstype is present, and returns no value at all.
\<close>

theorem device_for_mount_fstype_filter:
  assumes "\<forall>r\<in>set mounts. mount_record_ok r"
  shows "(\<forall>d. device_for_mount m mounts (Some f) = Inr d \<longrightarrow>
            (\<exists>r\<in>set mounts. r ''mount'' = Some m \<and> r ''fstype'' = Some f \<and> r ''device'' = Some d))
       \<and> ((\<forall>r\<in>set mounts. \<not> (r ''mount'' = Some m \<and> r ''fstype'' = Some f)) \<longrightarrow>
            (\<exists>msg. device_for_mount m mounts (Some f) = Inl (AnsibleFilterError msg)))"
proof (cases "find (matches m (Some f)) mounts")
  case None
  then have "device_for_mount m mounts (Some f) =
      Inl (AnsibleFilterError (device_failure_message m (Some f)))"
    using assms by (simp add: device_for_mount_find)
  then show ?thesis
    by simp
next
  case (Some r)
  then have r: "r \<in> set mounts" "r ''mount'' = Some m" "r ''fstype'' = Some f"
    by (auto simp: find_Some_iff matches_def)
  from Some assms have "device_for_mount m mounts (Some f) = getitem r ''device''"
    by (simp add: device_for_mount_find)
  then have "device_for_mount m mounts (Some f) = Inr d \<longleftrightarrow> r ''device'' = Some d" for d
    by (auto simp: getitem_def split: option.splits)
  with r show ?thesis
    by blast
qed

text \<open>
  Both sample records are mounted at \<^verbatim>\<open>/data\<close>. The filter \<^verbatim>\<open>btrfs\<close> selects the
  second; the filter \<^verbatim>\<open>xfs\<close> matches neither and the call fails.
\<close>

theorem device_for_mount_fstype_filter_witness:
  "mount_record_ok data_ext4 \<and> mount_record_ok data_btrfs
   \<and> device_for_mount ''/data'' [data_ext4, data_btrfs] (Some ''btrfs'') = Inr ''/dev/sdb1''
   \<and> (\<exists>r\<in>set [data_ext4, data_btrfs].
         r ''mount'' = Some ''/data'' \<and> r ''fstype'' = Some ''btrfs''
         \<and> r ''device'' = Some ''/dev/sdb1'')
   \<and> data_ext4 ''mount'' = Some ''/data'' \<and> data_ext4 ''fstype'' = Some ''ext4''
   \<and> data_btrfs ''mount'' = Some ''/data'' \<and> data_btrfs ''fstype'' = Some ''btrfs''
   \<and> (\<exists>msg. device_for_mount ''/data'' [data_ext4, data_btrfs] (Some ''xfs'')
              = Inl (AnsibleFilterError msg))"
proof -
  let ?ms = "[data_ext4, data_btrfs]"
  have ok: "\<forall>r\<in>set ?ms. mount_record_ok r"
    by (simp add: sample_records_ok)
  have run: "device_for_mount ''/data'' ?ms (Some ''btrfs'') = Inr ''/dev/sdb1''"
    by (simp add: getitem_def sample_fields)
  have none: "\<forall>r\<in>set ?ms. \<not> (r ''mount'' = Some ''/data'' \<and> r ''fstype'' = Some ''xfs'')"
    by (simp add: sample_fields)
  from device_for_mount_fstype_filter [OF ok, of "''/data''" "''btrfs''"] run
  have hit: "\<exists>r\<in>set ?ms. r ''mount'' = Some ''/data'' \<and> r ''fstype'' = Some ''btrfs''
      \<and> r ''device'' = Some ''/dev/sdb1''"
    by blast
  from device_for_mount_fstype_filter [OF ok, of "''/data''" "''xfs''"] none
  have miss: "\<exists>msg. device_for_mount ''/data'' ?ms (Some ''xfs'') = Inl (AnsibleFilterError msg)"
    by blast
  from run hit miss show ?thesis
    by (simp only: sample_records_ok sample_fields simp_thms)
qed

text \<open>
  C5: on records that have their fields, \<open>uuid_for_mount m mounts\<close> makes the same
  first-match-in-order search as \<open>device_for_mount\<close> without a filter. When some record
  has \<^verbatim>\<open>mount == m\<close>, both select the record at the least index with that mount;
  \<open>uuid_for_mount\<close> returns its \<^verbatim>\<open>uuid\<close> where \<open>device_for_mount\<close> returns its
  \<^verbatim>\<open>device\<close>. When no record has it, both fail with the lookup failure.
\<close>

theorem uuid_for_mount_first_match:
  assumes "\<forall>r\<in>set mounts. mount_record_ok r"
  shows "((\<exists>r\<in>set mounts. r ''mount'' = Some m) \<longrightarrow>
            (\<exists>i<length mounts.
                (mounts ! i) ''mount'' = Some m
              \<and> (\<forall>j<i. (mounts ! j) ''mount'' \<noteq> Some m)
              \<and> (\<exists>u d. (mounts ! i) ''uuid'' = Some u \<and> uuid_for_mount m mounts = Inr u
                     \<and> (mounts ! i) ''device'' = Some d
                     \<and> device_for_mount m mounts None = Inr d)))
       \<and> ((\<forall>r\<in>set mounts. r ''mount'' \<noteq> Some m) \<longrightarrow>
            uuid_for_mount m mounts =
              Inl (AnsibleFilterError (''No active mount found for '' @ quoted m))
          \<and> device_for_mount m mounts None =
              Inl (AnsibleFilterError (''No active mount found for '' @ quoted m)))"
proof (intro conjI impI)
  assume "\<exists>r\<in>set mounts. r ''mount'' = Some m"
  from first_match_index [OF this]
  obtain i where i: "i < length mounts" "(mounts ! i) ''mount'' = Some m"
      "\<forall>j<i. (mounts ! j) ''mount'' \<noteq> Some m"
      "find (\<lambda>r. r ''mount'' = Some m) mounts = Some (mounts ! i)"
    by blast
  from i(1) assms have "mount_record_ok (mounts ! i)"
    using nth_mem by blast
  then obtain u d where ud: "(mounts ! i) ''uuid'' = Some u" "(mounts ! i) ''device'' = Some d"
    by (auto simp: mount_record_ok_def)
  from assms i(4) ud(1) have "uuid_for_mount m mounts = Inr u"
    by (simp add: uuid_for_mount_find getitem_def)
  moreover from assms i(4) ud(2) have "device_for_mount m mounts None = Inr d"
    by (simp add: device_for_mount_find matches_None getitem_def)
  ultimately show "\<exists>i<length mounts.
                (mounts ! i) ''mount'' = Some m
              \<and> (\<forall>j<i. (mounts ! j) ''mount'' \<noteq> Some m)
              \<and> (\<exists>u d. (mounts ! i) ''uuid'' = Some u \<and> uuid_for_mount m mounts = Inr u
                     \<and> (mounts ! i) ''device'' = Some d
                     \<and> device_for_mount m mounts None = Inr d)"
    using i ud by blast
next
  assume none: "\<forall>r\<in>set mounts. r ''mount'' \<noteq> Some m"
  with assms show "uuid_for_mount m mounts =
      Inl (AnsibleFilterError (''No active mount found for '' @ quoted m))"
    by (rule uuid_for_mount_failure)
  from none have "\<forall>r\<in>set mounts. \<not> matches m None r"
    by (simp add: matches_None)
  with assms have "device_for_mount m mounts None =
      Inl (AnsibleFilterError (device_failure_message m None))"
    by (rule device_for_mount_failure)
  then show "device_for_mount m mounts None =
      Inl (AnsibleFilterError (''No active mount found for '' @ quoted m))"
    by (simp add: device_failure_message_def)
qed

text \<open>
  The scenario of the specification, between two other records: \<^verbatim>\<open>/data\<close> is found at
  the second record, \<^verbatim>\<open>/missing\<close> nowhere.
\<close>

theorem uuid_for_mount_first_match_witness:
  "mount_record_ok root_ext4 \<and> mount_record_ok data_ext4 \<and> mount_record_ok data_btrfs
   \<and> root_ext4 ''mount'' = Some ''/''
   \<and> data_ext4 ''mount'' = Some ''/data'' \<and> data_btrfs ''mount'' = Some ''/data''
   \<and> data_ext4 ''uuid'' = Some ''abc-123'' \<and> data_ext4 ''device'' = Some ''/dev/sda1''
   \<and> uuid_for_mount ''/data'' [root_ext4, data_ext4, data_btrfs] = Inr ''abc-123''
   \<and> device_for_mount ''/data'' [root_ext4, data_ext4, data_btrfs] None = Inr ''/dev/sda1''
   \<and> uuid_for_mount ''/missing'' [root_ext4, data_ext4, data_btrfs] =
       Inl (AnsibleFilterError (''No active mount found for '' @ quoted ''/missing''))
   \<and> device_for_mount ''/missing'' [root_ext4, data_ext4, data_btrfs] None =
       Inl (AnsibleFilterError (''No active mount found for '' @ quoted ''/missing''))"
proof -
  let ?ms = "[root_ext4, data_ext4, data_btrfs]"
  have ok: "\<forall>r\<in>set ?ms. mount_record_ok r"
    by (simp add: sample_records_ok)
  have ex: "\<exists>r\<in>set ?ms. r ''mount'' = Some ''/data''"
    by (simp add: sample_fields)
  have none: "\<forall>r\<in>set ?ms. r ''mount'' \<noteq> Some ''/missing''"
    by (simp add: sample_fields)
  from uuid_for_mount_first_match [OF ok, of "''/data''"] ex
  obtain i u d where i: "i < length ?ms" "(?ms ! i) ''mount'' = Some ''/data''"
    "\<forall>j<i. (?ms ! j) ''mount'' \<noteq> Some ''/data''"
    "(?ms ! i) ''uuid'' = Some u" "uuid_for_mount ''/data'' ?ms = Inr u"
    "(?ms ! i) ''device'' = Some d" "device_for_mount ''/data'' ?ms None = Inr d"
    by blast
  from i(1) have "i = 0 \<or> i = 1 \<or> i = 2"
    by auto
  then have "i = 1"
  proof (elim disjE)
    assume "i = 0"
    with i(2) show ?thesis by (simp add: sample_fields)
  next
    assume "i = 1"
    then show ?thesis .
  next
    assume "i = 2"
    moreover have "(1::nat) < 2"
      by simp
    ultimately have "(?ms ! 1) ''mount'' \<noteq> Some ''/data''"
      using i(3) by blast
    then show ?thesis by (simp add: sample_fields)
  qed
  with i(4-7) have found: "uuid_for_mount ''/data'' ?ms = Inr ''abc-123''"
    "device_for_mount ''/data'' ?ms None = Inr ''/dev/sda1''"
    by (simp_all add: sample_fields)
  from uuid_for_mount_first_match [OF ok, of "''/missing''"] none
  have missing: "uuid_for_mount ''/missing'' ?ms =
       Inl (AnsibleFilterError (''No active mount found for '' @ quoted ''/missing''))"
    "device_for_mount ''/missing'' ?ms None =
       Inl (AnsibleFilterError (''No active mount found for '' @ quoted ''/missing''))"
    by blast+
  from found missing show ?thesis
    by (simp only: sample_records_ok sample_fields simp_thms)
qed

text \<open>
  C9: the empty string passed as the filter is a filter: \<open>device_for_mount\<close> returns a
  device only from a record with \<^verbatim>\<open>mount == m\<close> whose \<^verbatim>\<open>fstype\<close> is the empty string.
  When no record is such, the message of the failure names the mount point only, with no
  fstype clause: it is the message of the call without a filter, since the empty string is
  false where the message is built.
\<close>

theorem device_for_mount_empty_fstype:
  assumes "\<forall>r\<in>set mounts. mount_record_ok r"
  shows "(\<forall>d. device_for_mount m mounts (Some []) = Inr d \<longrightarrow>
            (\<exists>r\<in>set mounts. r ''mount'' = Some m \<and> r ''fstype'' = Some [] \<and> r ''device'' = Some d))
       \<and> ((\<forall>r\<in>set mounts. \<not> (r ''mount'' = Some m \<and> r ''fstype'' = Some [])) \<longrightarrow>
            device_for_mount m mounts (Some []) =
              Inl (AnsibleFilterError (''No active mount found for '' @ quoted m)))
       \<and> device_failure_message m (Some []) = device_failure_message m None"
proof (intro conjI allI impI)
  fix d
  assume "device_for_mount m mounts (Some []) = Inr d"
  with assms obtain r where "find (matches m (Some [])) mounts = Some r" "r ''device'' = Some d"
    by (auto simp: device_for_mount_Inr_iff)
  then show "\<exists>r\<in>set mounts. r ''mount'' = Some m \<and> r ''fstype'' = Some [] \<and> r ''device'' = Some d"
    by (auto simp: find_Some_iff matches_def)
next
  assume "\<forall>r\<in>set mounts. \<not> (r ''mount'' = Some m \<and> r ''fstype'' = Some [])"
  then have "\<forall>r\<in>set mounts. \<not> matches m (Some []) r"
    by (simp add: matches_def)
  with assms have "device_for_mount m mounts (Some []) =
      Inl (AnsibleFilterError (device_failure_message m (Some [])))"
    by (rule device_for_mount_failure)
  then show "device_for_mount m mounts (Some []) =
      Inl (AnsibleFilterError (''No active mount found for '' @ quoted m))"
    by (simp add: device_failure_message_def)
next
  show "device_failure_message m (Some []) = device_failure_message m None"
    by (simp add: device_failure_message_def)
qed

text \<open>
  Before a record of \<^verbatim>\<open>/data\<close> with an empty \<^verbatim>\<open>fstype\<close> stands one with \<^verbatim>\<open>ext4\<close>:
  the empty filter passes over it. Without the record of empty \<^verbatim>\<open>fstype\<close> the call
  fails, and the message has no fstype clause.
\<close>

theorem device_for_mount_empty_fstype_witness:
  "mount_record_ok data_ext4 \<and> mount_record_ok data_blank
   \<and> data_ext4 ''mount'' = Some ''/data'' \<and> data_ext4 ''fstype'' = Some ''ext4''
   \<and> data_blank ''mount'' = Some ''/data'' \<and> data_blank ''fstype'' = Some []
   \<and> device_for_mount ''/data'' [data_ext4, data_blank] (Some []) = Inr ''/dev/sdc1''
   \<and> (\<exists>r\<in>set [data_ext4, data_blank].
         r ''mount'' = Some ''/data'' \<and> r ''fstype'' = Some [] \<and> r ''device'' = Some ''/dev/sdc1'')
   \<and> device_for_mount ''/data'' [data_ext4] (Some []) =
       Inl (AnsibleFilterError (''No active mount found for '' @ quoted ''/data''))
   \<and> \<not> sublist ''fstype'' (''No active mount found for '' @ quoted ''/data'')"
proof -
  have ok2: "\<forall>r\<in>set [data_ext4, data_blank]. mount_record_ok r"
    and ok1: "\<forall>r\<in>set [data_ext4]. mount_record_ok r"
    by (simp_all add: sample_records_ok)
  have run: "device_for_mount ''/data'' [data_ext4, data_blank] (Some []) = Inr ''/dev/sdc1''"
    by (simp add: getitem_def sample_fields)
  with device_for_mount_empty_fstype [OF ok2, of "''/data''"]
  have hit: "\<exists>r\<in>set [data_ext4, data_blank].
         r ''mount'' = Some ''/data'' \<and> r ''fstype'' = Some [] \<and> r ''device'' = Some ''/dev/sdc1''"
    by blast
  have none: "\<forall>r\<in>set [data_ext4]. \<not> (r ''mount'' = Some ''/data'' \<and> r ''fstype'' = Some [])"
    by (simp add: sample_fields)
  with device_for_mount_empty_fstype [OF ok1, of "''/data''"]
  have miss: "device_for_mount ''/data'' [data_ext4] (Some []) =
       Inl (AnsibleFilterError (''No active mount found for '' @ quoted ''/data''))"
    by blast
  have plain: "\<not> sublist ''fstype'' (''No active mount found for '' @ quoted ''/data'')"
    by (simp add: quoted_def sublist_Cons_right)
  from run hit miss plain show ?thesis
    by (simp only: sample_records_ok sample_fields simp_thms)
qed

text \<open>
  C3 does not hold as worded: a filter that is the empty string is a supplied filter, no
  record of the sample matches it, and the message of the failure has no word of the
  fstype.
\<close>

theorem lookup_failure_names_fstype_counterexample:
  "mount_record_ok data_ext4
   \<and> device_for_mount ''/data'' [data_ext4] (Some []) =
       Inl (AnsibleFilterError (''No active mount found for '' @ quoted ''/data''))
   \<and> \<not> sublist ('' with fstype '' @ quoted []) (''No active mount found for '' @ quoted ''/data'')
   \<and> \<not> sublist ''fstype'' (''No active mount found for '' @ quoted ''/data'')"
proof -
  have "device_for_mount ''/data'' [data_ext4] (Some []) =
      Inl (AnsibleFilterError (''No active mount found for '' @ quoted ''/data''))"
    by (simp add: getitem_def sample_fields device_failure_message_def)
  moreover have "\<not> sublist ''fstype'' (''No active mount found for '' @ quoted ''/data'')"
    by (simp add: quoted_def sublist_Cons_right)
  moreover have "\<not> sublist ('' with fstype '' @ quoted []) (''No active mount found for '' @ quoted ''/data'')"
    by (simp add: quoted_def sublist_Cons_right)
  ultimately show ?thesis
    by (simp only: sample_records_ok simp_thms)
qed

text \<open>
  C3, amended: on records that have their fields, when no record has \<^verbatim>\<open>mount == m\<close>
  both \<open>device_for_mount\<close> (with any filter or none) and \<open>uuid_for_mount\<close> fail with the
  lookup failure and its message contains \<open>m\<close>; and when a filter \<open>f\<close> other than the
  empty string is supplied and no record has both \<^verbatim>\<open>mount == m\<close> and \<^verbatim>\<open>fstype == f\<close>,
  the message of \<open>device_for_mount\<close> contains \<open>m\<close> and the clause
  \<^verbatim>\<open> with fstype 'f'\<close>.
\<close>

theorem lookup_failure_message_names_query:
  assumes "\<forall>r\<in>set mounts. mount_record_ok r"
  shows "((\<forall>r\<in>set mounts. r ''mount'' \<noteq> Some m) \<longrightarrow>
            (\<exists>msg. device_for_mount m mounts fs = Inl (AnsibleFilterError msg) \<and> sublist m msg)
          \<and> (\<exists>msg. uuid_for_mount m mounts = Inl (AnsibleFilterError msg) \<and> sublist m msg))
       \<and> ((\<forall>r\<in>set mounts. \<not> (r ''mount'' = Some m \<and> r ''fstype'' = Some f)) \<and> f \<noteq> [] \<longrightarrow>
            (\<exists>msg. device_for_mount m mounts (Some f) = Inl (AnsibleFilterError msg)
                 \<and> sublist m msg \<and> sublist ('' with fstype '' @ quoted f) msg))"
proof (intro conjI impI)
  assume absent: "\<forall>r\<in>set mounts. r ''mount'' \<noteq> Some m"
  then have "\<forall>r\<in>set mounts. \<not> matches m fs r"
    by (simp add: matches_def)
  with assms have "device_for_mount m mounts fs =
      Inl (AnsibleFilterError (device_failure_message m fs))"
    by (rule device_for_mount_failure)
  then show "\<exists>msg. device_for_mount m mounts fs = Inl (AnsibleFilterError msg) \<and> sublist m msg"
    using failure_message_contains_mount by blast
  from assms absent have "uuid_for_mount m mounts =
      Inl (AnsibleFilterError (''No active mount found for '' @ quoted m))"
    by (rule uuid_for_mount_failure)
  then show "\<exists>msg. uuid_for_mount m mounts = Inl (AnsibleFilterError msg) \<and> sublist m msg"
    using uuid_message_contains_mount by blast
next
  assume "(\<forall>r\<in>set mounts. \<not> (r ''mount'' = Some m \<and> r ''fstype'' = Some f)) \<and> f \<noteq> []"
  then have none: "\<forall>r\<in>set mounts. \<not> matches m (Some f) r" and f: "f \<noteq> []"
    by (simp_all add: matches_def)
  from assms none have "device_for_mount m mounts (Some f) =
      Inl (AnsibleFilterError (device_failure_message m (Some f)))"
    by (rule device_for_mount_failure)
  then show "\<exists>msg. device_for_mount m mounts (Some f) = Inl (AnsibleFilterError msg)
      \<and> sublist m msg \<and> sublist ('' with fstype '' @ quoted f) msg"
    using failure_message_contains_mount failure_message_contains_fstype [OF f] by blast
qed

text \<open>
  On the scenario of the specification: \<^verbatim>\<open>/missing\<close> is absent, and \<^verbatim>\<open>/data\<close> is
  there with \<^verbatim>\<open>ext4\<close> and not with \<^verbatim>\<open>btrfs\<close>.
\<close>

theorem lookup_failure_message_names_query_witness:
  "mount_record_ok data_ext4
   \<and> data_ext4 ''mount'' = Some ''/data'' \<and> data_ext4 ''fstype'' = Some ''ext4''
   \<and> (\<exists>msg. device_for_mount ''/missing'' [data_ext4] None = Inl (AnsibleFilterError msg)
         \<and> sublist ''/missing'' msg)
   \<and> (\<exists>msg. uuid_for_mount ''/missing'' [data_ext4] = Inl (AnsibleFilterError msg)
         \<and> sublist ''/missing'' msg)
   \<and> (\<exists>msg. device_for_mount ''/data'' [data_ext4] (Some ''btrfs'') = Inl (AnsibleFilterError msg)
         \<and> sublist ''/data'' msg \<and> sublist ('' with fstype '' @ quoted ''btrfs'') msg)
   \<and> device_for_mount ''/data'' [data_ext4] (Some ''btrfs'') =
       Inl (AnsibleFilterError
         (''No active mount found for '' @ quoted ''/data'' @ '' with fstype '' @ quoted ''btrfs''))"
proof -
  have ok: "\<forall>r\<in>set [data_ext4]. mount_record_ok r"
    by (simp add: sample_records_ok)
  have absent: "\<forall>r\<in>set [data_ext4]. r ''mount'' \<noteq> Some ''/missing''"
    by (simp add: sample_fields)
  have other: "(\<forall>r\<in>set [data_ext4]. \<not> (r ''mount'' = Some ''/data'' \<and> r ''fstype'' = Some ''btrfs''))
      \<and> ''btrfs'' \<noteq> []"
    by (simp add: sample_fields)
  from lookup_failure_message_names_query [OF ok, of "''/missing''" None] absent
  have a: "\<exists>msg. device_for_mount ''/missing'' [data_ext4] None = Inl (AnsibleFilterError msg)
         \<and> sublist ''/missing'' msg"
    "\<exists>msg. uuid_for_mount ''/missing'' [data_ext4] = Inl (AnsibleFilterError msg)
         \<and> sublist ''/missing'' msg"
    by blast+
  from lookup_failure_message_names_query [OF ok, of "''/data''" None "''btrfs''"] other
  have b: "\<exists>msg. device_for_mount ''/data'' [data_ext4] (Some ''btrfs'') = Inl (AnsibleFilterError msg)
         \<and> sublist ''/data'' msg \<and> sublist ('' with fstype '' @ quoted ''btrfs'') msg"
    by blast
  have c: "device_for_mount ''/data'' [data_ext4] (Some ''btrfs'') =
       Inl (AnsibleFilterError
         (''No active mount found for '' @ quoted ''/data'' @ '' with fstype '' @ quoted ''btrfs''))"
    by (simp add: getitem_def sample_fields device_failure_message_def)
  from a b c show ?thesis
    by (simp only: sample_records_ok sample_fields simp_thms)
qed

text \<open>
  C10 does not hold as worded: a record without \<^verbatim>\<open>fstype\<close> that is examined before
  the first match, with a filter given, raises no key error when its \<^verbatim>\<open>mount\<close> is
  another mount point, because \<^verbatim>\<open>m["fstype"]\<close> is then never read. The search goes on
  and returns the later match, or fails with the lookup failure.
\<close>

theorem key_error_fstype_counterexample:
  "boot_no_fstype ''mount'' = Some ''/boot'' \<and> boot_no_fstype ''fstype'' = None
   \<and> mount_record_ok data_ext4
   \<and> device_for_mount ''/data'' [boot_no_fstype, data_ext4] (Some ''ext4'') = Inr ''/dev/sda1''
   \<and> device_for_mount ''/data'' [boot_no_fstype] (Some ''ext4'') =
       Inl (AnsibleFilterError
         (''No active mount found for '' @ quoted ''/data'' @ '' with fstype '' @ quoted ''ext4''))"
proof -
  have "device_for_mount ''/data'' [boot_no_fstype, data_ext4] (Some ''ext4'') = Inr ''/dev/sda1''"
    by (simp add: getitem_def sample_fields broken_fields)
  moreover have "device_for_mount ''/data'' [boot_no_fstype] (Some ''ext4'') =
       Inl (AnsibleFilterError
         (''No active mount found for '' @ quoted ''/data'' @ '' with fstype '' @ quoted ''ext4''))"
    by (simp add: getitem_def broken_fields device_failure_message_def)
  ultimately show ?thesis
    by (simp only: sample_records_ok broken_fields simp_thms)
qed

lemma bare_fields:
  "data_xfs_bare ''mount'' = Some ''/data''" "data_xfs_bare ''fstype'' = Some ''xfs''"
  "data_xfs_bare ''device'' = None"
  "data_ext4_no_device ''mount'' = Some ''/data''"
  "data_ext4_no_device ''fstype'' = Some ''ext4''" "data_ext4_no_device ''device'' = None"
  by (simp_all add: data_xfs_bare_def data_ext4_no_device_def)

text \<open>
  A record that the loop passes over is skipped, and so is a prefix of such records.
\<close>

lemma device_for_mount_pass:
  "passed_over m fs p \<Longrightarrow> device_for_mount m (p # rest) fs = device_for_mount m rest fs"
  by (auto simp: passed_over_def getitem_def split: option.splits)

lemma device_for_mount_passed_prefix:
  "\<forall>p\<in>set pre. passed_over m fs p \<Longrightarrow>
   device_for_mount m (pre @ rest) fs = device_for_mount m rest fs"
  by (induction pre) (simp_all add: device_for_mount_pass del: device_for_mount.simps(2))

lemma uuid_for_mount_pass:
  "passed_over m None p \<Longrightarrow> uuid_for_mount m (p # rest) = uuid_for_mount m rest"
  by (auto simp: passed_over_def getitem_def split: option.splits)

lemma uuid_for_mount_passed_prefix:
  "\<forall>p\<in>set pre. passed_over m None p \<Longrightarrow>
   uuid_for_mount m (pre @ rest) = uuid_for_mount m rest"
  by (induction pre) (simp_all add: uuid_for_mount_pass del: uuid_for_mount.simps(2))

text \<open>
  A key error comes from a record that the loop reached: the records before it were passed
  over, and it lacks the field that was read.
\<close>

lemma device_for_mount_KeyError:
  "device_for_mount m mounts fs = Inl (KeyError k) \<Longrightarrow>
   \<exists>pre r post. mounts = pre @ r # post \<and> (\<forall>p\<in>set pre. passed_over m fs p) \<and>
     (r ''mount'' = None \<and> k = ''mount''
      \<or> r ''mount'' = Some m \<and> fs \<noteq> None \<and> r ''fstype'' = None \<and> k = ''fstype''
      \<or> matches m fs r \<and> r ''device'' = None \<and> k = ''device'')"
proof (induction mounts)
  case Nil
  then show ?case by simp
next
  case (Cons x xs)
  let ?lacks = "\<lambda>r. r ''mount'' = None \<and> k = ''mount''
      \<or> r ''mount'' = Some m \<and> fs \<noteq> None \<and> r ''fstype'' = None \<and> k = ''fstype''
      \<or> matches m fs r \<and> r ''device'' = None \<and> k = ''device''"
  show ?case
  proof (cases "passed_over m fs x")
    case True
    with Cons.prems have "device_for_mount m xs fs = Inl (KeyError k)"
      by (simp add: device_for_mount_pass del: device_for_mount.simps(2))
    from Cons.IH [OF this] obtain pre r post where
      *: "xs = pre @ r # post" "\<forall>p\<in>set pre. passed_over m fs p" "?lacks r"
      by blast
    from * True have "x # xs = (x # pre) @ r # post" "\<forall>p\<in>set (x # pre). passed_over m fs p"
      by simp_all
    with *(3) show ?thesis
      by blast
  next
    case False
    with Cons.prems have "?lacks x"
      by (auto simp: passed_over_def matches_def getitem_def split: option.splits if_splits)
    moreover have "x # xs = [] @ x # xs" "\<forall>p\<in>set []. passed_over m fs p"
      by simp_all
    ultimately show ?thesis
      by blast
  qed
qed

lemma uuid_for_mount_KeyError:
  "uuid_for_mount m mounts = Inl (KeyError k) \<Longrightarrow>
   \<exists>pre r post. mounts = pre @ r # post \<and> (\<forall>p\<in>set pre. passed_over m None p) \<and>
     (r ''mount'' = None \<and> k = ''mount''
      \<or> r ''mount'' = Some m \<and> r ''uuid'' = None \<and> k = ''uuid'')"
proof (induction mounts)
  case Nil
  then show ?case by simp
next
  case (Cons x xs)
  let ?lacks = "\<lambda>r. r ''mount'' = None \<and> k = ''mount''
      \<or> r ''mount'' = Some m \<and> r ''uuid'' = None \<and> k = ''uuid''"
  show ?case
  proof (cases "passed_over m None x")
    case True
    with Cons.prems have "uuid_for_mount m xs = Inl (KeyError k)"
      by (simp add: uuid_for_mount_pass del: uuid_for_mount.simps(2))
    from Cons.IH [OF this] obtain pre r post where
      *: "xs = pre @ r # post" "\<forall>p\<in>set pre. passed_over m None p" "?lacks r"
      by blast
    from * True have "x # xs = (x # pre) @ r # post" "\<forall>p\<in>set (x # pre). passed_over m None p"
      by simp_all
    with *(3) show ?thesis
      by blast
  next
    case False
    with Cons.prems have "?lacks x"
      by (auto simp: passed_over_def getitem_def split: option.splits if_splits)
    moreover have "x # xs = [] @ x # xs" "\<forall>p\<in>set []. passed_over m None p"
      by simp_all
    ultimately show ?thesis
      by blast
  qed
qed

text \<open>
  C10, amended. A record is examined when every record before it was passed over, which
  asks of those records only the fields the loop read on them: \<^verbatim>\<open>mount\<close>, and
  \<^verbatim>\<open>fstype\<close> only on a record with \<^verbatim>\<open>mount == m\<close> when a filter is given. A record
  mounted elsewhere is passed over whatever other fields it lacks. When all records are
  passed over the lookup ends in the lookup failure. Otherwise the examined record \<open>r\<close>
  decides. Without \<^verbatim>\<open>mount\<close> both lookups end in \<^verbatim>\<open>KeyError('mount')\<close>. With
  \<^verbatim>\<open>mount == m\<close>, a filter given and no \<^verbatim>\<open>fstype\<close>, \<open>device_for_mount\<close> ends in
  \<^verbatim>\<open>KeyError('fstype')\<close>. When \<open>r\<close> satisfies the loop's condition the lookup returns
  its \<^verbatim>\<open>device\<close> (for \<open>uuid_for_mount\<close>: its \<^verbatim>\<open>uuid\<close>), or ends in the key error of
  that field when \<open>r\<close> lacks it. These are the only key errors: a lookup that ends in one
  has examined a record lacking the field that was read, so when every examined record
  carries the fields read on it, the key error is unreachable.
\<close>

theorem key_error_on_missing_field:
  "((\<forall>p\<in>set pre. passed_over m fs p) \<longrightarrow>
        device_for_mount m pre fs = Inl (AnsibleFilterError (device_failure_message m fs))
      \<and> (matches m fs r \<and> r ''device'' = Some d \<longrightarrow>
           device_for_mount m (pre @ r # post) fs = Inr d)
      \<and> (r ''mount'' = None \<longrightarrow>
           device_for_mount m (pre @ r # post) fs = Inl (KeyError ''mount''))
      \<and> (r ''mount'' = Some m \<and> fs = Some f \<and> r ''fstype'' = None \<longrightarrow>
           device_for_mount m (pre @ r # post) fs = Inl (KeyError ''fstype''))
      \<and> (matches m fs r \<and> r ''device'' = None \<longrightarrow>
           device_for_mount m (pre @ r # post) fs = Inl (KeyError ''device'')))
   \<and> ((\<forall>p\<in>set pre. passed_over m None p) \<longrightarrow>
        uuid_for_mount m pre = Inl (AnsibleFilterError (''No active mount found for '' @ quoted m))
      \<and> (r ''mount'' = Some m \<and> r ''uuid'' = Some u \<longrightarrow>
           uuid_for_mount m (pre @ r # post) = Inr u)
      \<and> (r ''mount'' = None \<longrightarrow>
           uuid_for_mount m (pre @ r # post) = Inl (KeyError ''mount''))
      \<and> (r ''mount'' = Some m \<and> r ''uuid'' = None \<longrightarrow>
           uuid_for_mount m (pre @ r # post) = Inl (KeyError ''uuid'')))
   \<and> (device_for_mount m mounts fs = Inl (KeyError k) \<longrightarrow>
        (\<exists>pre r post. mounts = pre @ r # post \<and> (\<forall>p\<in>set pre. passed_over m fs p) \<and>
           (r ''mount'' = None \<and> k = ''mount''
            \<or> r ''mount'' = Some m \<and> fs \<noteq> None \<and> r ''fstype'' = None \<and> k = ''fstype''
            \<or> matches m fs r \<and> r ''device'' = None \<and> k = ''device'')))
   \<and> (uuid_for_mount m mounts = Inl (KeyError k) \<longrightarrow>
        (\<exists>pre r post. mounts = pre @ r # post \<and> (\<forall>p\<in>set pre. passed_over m None p) \<and>
           (r ''mount'' = None \<and> k = ''mount''
            \<or> r ''mount'' = Some m \<and> r ''uuid'' = None \<and> k = ''uuid'')))"
proof (intro conjI impI)
  assume pre: "\<forall>p\<in>set pre. passed_over m fs p"
  have at: "device_for_mount m (pre @ rest) fs = device_for_mount m rest fs" for rest
    by (rule device_for_mount_passed_prefix [OF pre])
  from at [of "[]"]
  show "device_for_mount m pre fs = Inl (AnsibleFilterError (device_failure_message m fs))"
    by simp
  {
    assume "matches m fs r \<and> r ''device'' = Some d"
    then show "device_for_mount m (pre @ r # post) fs = Inr d"
      by (simp add: at device_for_mount_hit getitem_def del: device_for_mount.simps(2))
  next
    assume "r ''mount'' = None"
    then show "device_for_mount m (pre @ r # post) fs = Inl (KeyError ''mount'')"
      by (simp add: at getitem_def)
  next
    assume a: "r ''mount'' = Some m \<and> fs = Some f \<and> r ''fstype'' = None"
    have "device_for_mount m (pre @ r # post) fs = device_for_mount m (r # post) fs"
      by (rule at)
    also from a have "\<dots> = Inl (KeyError ''fstype'')"
      by (simp add: getitem_def)
    finally show "device_for_mount m (pre @ r # post) fs = Inl (KeyError ''fstype'')" .
  next
    assume "matches m fs r \<and> r ''device'' = None"
    then show "device_for_mount m (pre @ r # post) fs = Inl (KeyError ''device'')"
      by (simp add: at device_for_mount_hit getitem_def del: device_for_mount.simps(2))
  }
next
  assume pre: "\<forall>p\<in>set pre. passed_over m None p"
  have at: "uuid_for_mount m (pre @ rest) = uuid_for_mount m rest" for rest
    by (rule uuid_for_mount_passed_prefix [OF pre])
  from at [of "[]"]
  show "uuid_for_mount m pre = Inl (AnsibleFilterError (''No active mount found for '' @ quoted m))"
    by simp
  {
    assume "r ''mount'' = Some m \<and> r ''uuid'' = Some u"
    then show "uuid_for_mount m (pre @ r # post) = Inr u"
      by (simp add: at getitem_def)
  next
    assume "r ''mount'' = None"
    then show "uuid_for_mount m (pre @ r # post) = Inl (KeyError ''mount'')"
      by (simp add: at getitem_def)
  next
    assume "r ''mount'' = Some m \<and> r ''uuid'' = None"
    then show "uuid_for_mount m (pre @ r # post) = Inl (KeyError ''uuid'')"
      by (simp add: at getitem_def)
  }
next
  assume "device_for_mount m mounts fs = Inl (KeyError k)"
  then show "\<exists>pre r post. mounts = pre @ r # post \<and> (\<forall>p\<in>set pre. passed_over m fs p) \<and>
           (r ''mount'' = None \<and> k = ''mount''
            \<or> r ''mount'' = Some m \<and> fs \<noteq> None \<and> r ''fstype'' = None \<and> k = ''fstype''
            \<or> matches m fs r \<and> r ''device'' = None \<and> k = ''device'')"
    by (rule device_for_mount_KeyError)
next
  assume "uuid_for_mount m mounts = Inl (KeyError k)"
  then show "\<exists>pre r post. mounts = pre @ r # post \<and> (\<forall>p\<in>set pre. passed_over m None p) \<and>
           (r ''mount'' = None \<and> k = ''mount''
            \<or> r ''mount'' = Some m \<and> r ''uuid'' = None \<and> k = ''uuid'')"
    by (rule uuid_for_mount_KeyError)
qed

text \<open>
  With the filter \<^verbatim>\<open>ext4\<close>, the record of \<^verbatim>\<open>/boot\<close> without \<^verbatim>\<open>fstype\<close> and the
  record of \<^verbatim>\<open>/data\<close> with \<^verbatim>\<open>xfs\<close> and no \<^verbatim>\<open>device\<close> are passed over. Behind them the
  \<^verbatim>\<open>ext4\<close> record of \<^verbatim>\<open>/data\<close> gives its device, and each defective record gives
  the key error of the field it lacks.
\<close>

theorem key_error_on_missing_field_witness:
  "passed_over ''/data'' (Some ''ext4'') boot_no_fstype
   \<and> passed_over ''/data'' (Some ''ext4'') data_xfs_bare
   \<and> passed_over ''/data'' None boot_no_fstype
   \<and> boot_no_fstype ''fstype'' = None \<and> data_xfs_bare ''device'' = None
   \<and> device_for_mount ''/data'' [boot_no_fstype, data_xfs_bare] (Some ''ext4'')
       = Inl (AnsibleFilterError (device_failure_message ''/data'' (Some ''ext4'')))
   \<and> matches ''/data'' (Some ''ext4'') data_ext4 \<and> data_ext4 ''device'' = Some ''/dev/sda1''
   \<and> device_for_mount ''/data'' [boot_no_fstype, data_xfs_bare, data_ext4] (Some ''ext4'')
       = Inr ''/dev/sda1''
   \<and> no_mount ''mount'' = None
   \<and> device_for_mount ''/data'' [boot_no_fstype, data_xfs_bare, no_mount] (Some ''ext4'')
       = Inl (KeyError ''mount'')
   \<and> data_only_mount ''mount'' = Some ''/data'' \<and> data_only_mount ''fstype'' = None
   \<and> device_for_mount ''/data'' [boot_no_fstype, data_xfs_bare, data_only_mount] (Some ''ext4'')
       = Inl (KeyError ''fstype'')
   \<and> matches ''/data'' (Some ''ext4'') data_ext4_no_device
   \<and> data_ext4_no_device ''device'' = None
   \<and> device_for_mount ''/data'' [boot_no_fstype, data_xfs_bare, data_ext4_no_device]
         (Some ''ext4'')
       = Inl (KeyError ''device'')
   \<and> uuid_for_mount ''/data'' [boot_no_fstype]
       = Inl (AnsibleFilterError (''No active mount found for '' @ quoted ''/data''))
   \<and> data_ext4 ''mount'' = Some ''/data'' \<and> data_ext4 ''uuid'' = Some ''abc-123''
   \<and> uuid_for_mount ''/data'' [boot_no_fstype, data_ext4] = Inr ''abc-123''
   \<and> uuid_for_mount ''/data'' [boot_no_fstype, no_mount] = Inl (KeyError ''mount'')
   \<and> data_only_mount ''uuid'' = None
   \<and> uuid_for_mount ''/data'' [boot_no_fstype, data_only_mount] = Inl (KeyError ''uuid'')
   \<and> (\<exists>pre r post. [boot_no_fstype, data_xfs_bare, data_only_mount] = pre @ r # post
         \<and> list_all (passed_over ''/data'' (Some ''ext4'')) pre
         \<and> r ''mount'' = Some ''/data'' \<and> r ''fstype'' = None)
   \<and> (\<exists>pre r post. [boot_no_fstype, data_only_mount] = pre @ r # post
         \<and> list_all (passed_over ''/data'' None) pre
         \<and> r ''mount'' = Some ''/data'' \<and> r ''uuid'' = None)"
proof -
  define m where "m = ''/data''"
  define e4 where "e4 = ''ext4''"
  note fields = sample_fields broken_fields bare_fields
  have over: "passed_over m (Some e4) boot_no_fstype" "passed_over m (Some e4) data_xfs_bare"
    "passed_over m None boot_no_fstype"
    by (simp_all add: passed_over_def fields m_def e4_def)
  have hit: "matches m (Some e4) data_ext4" "matches m (Some e4) data_ext4_no_device"
    by (simp_all add: matches_def fields m_def e4_def)
  have at: "data_ext4 ''mount'' = Some m" "data_only_mount ''mount'' = Some m"
    by (simp_all add: fields m_def)
  have pre2: "\<forall>p\<in>set [boot_no_fstype, data_xfs_bare]. passed_over m (Some e4) p"
    and pre1: "\<forall>p\<in>set [boot_no_fstype]. passed_over m None p"
    by (simp_all add: over)
  let ?pre2 = "[boot_no_fstype, data_xfs_bare]" and ?pre1 = "[boot_no_fstype]"
  have d0: "device_for_mount m ?pre2 (Some e4)
      = Inl (AnsibleFilterError (device_failure_message m (Some e4)))"
    by (rule key_error_on_missing_field [where pre = ?pre2 and m = m and fs = "Some e4",
      THEN conjunct1, THEN mp, OF pre2, THEN conjunct1])
  have d1: "device_for_mount m (?pre2 @ data_ext4 # []) (Some e4) = Inr ''/dev/sda1''"
    using key_error_on_missing_field [where pre = ?pre2 and m = m and fs = "Some e4"
      and r = data_ext4 and d = "''/dev/sda1''" and post = "[]",
      THEN conjunct1, THEN mp, OF pre2, THEN conjunct2, THEN conjunct1] hit(1) fields(6)
    by blast
  have d2: "device_for_mount m (?pre2 @ no_mount # []) (Some e4) = Inl (KeyError ''mount'')"
    using key_error_on_missing_field [where pre = ?pre2 and m = m and fs = "Some e4"
      and r = no_mount and post = "[]",
      THEN conjunct1, THEN mp, OF pre2, THEN conjunct2, THEN conjunct2, THEN conjunct1]
      broken_fields(5)
    by blast
  have d3: "device_for_mount m (?pre2 @ data_only_mount # []) (Some e4)
      = Inl (KeyError ''fstype'')"
    using key_error_on_missing_field [where pre = ?pre2 and m = m and fs = "Some e4"
      and r = data_only_mount and f = e4 and post = "[]",
      THEN conjunct1, THEN mp, OF pre2,
      THEN conjunct2, THEN conjunct2, THEN conjunct2, THEN conjunct1]
      at(2) broken_fields(8)
    by blast
  have d4: "device_for_mount m (?pre2 @ data_ext4_no_device # []) (Some e4)
      = Inl (KeyError ''device'')"
    using key_error_on_missing_field [where pre = ?pre2 and m = m and fs = "Some e4"
      and r = data_ext4_no_device and post = "[]",
      THEN conjunct1, THEN mp, OF pre2,
      THEN conjunct2, THEN conjunct2, THEN conjunct2, THEN conjunct2]
      hit(2) bare_fields(6)
    by blast
  have u0: "uuid_for_mount m ?pre1
      = Inl (AnsibleFilterError (''No active mount found for '' @ quoted m))"
    by (rule key_error_on_missing_field [where pre = ?pre1 and m = m,
      THEN conjunct2, THEN conjunct1, THEN mp, OF pre1, THEN conjunct1])
  have u1: "uuid_for_mount m (?pre1 @ data_ext4 # []) = Inr ''abc-123''"
    using key_error_on_missing_field [where pre = ?pre1 and m = m
      and r = data_ext4 and u = "''abc-123''" and post = "[]",
      THEN conjunct2, THEN conjunct1, THEN mp, OF pre1, THEN conjunct2, THEN conjunct1]
      at(1) fields(8)
    by blast
  have u2: "uuid_for_mount m (?pre1 @ no_mount # []) = Inl (KeyError ''mount'')"
    using key_error_on_missing_field [where pre = ?pre1 and m = m
      and r = no_mount and post = "[]",
      THEN conjunct2, THEN conjunct1, THEN mp,
      OF pre1, THEN conjunct2, THEN conjunct2, THEN conjunct1]
      broken_fields(5)
    by blast
  have u3: "uuid_for_mount m (?pre1 @ data_only_mount # []) = Inl (KeyError ''uuid'')"
    using key_error_on_missing_field [where pre = ?pre1 and m = m
      and r = data_only_mount and post = "[]",
      THEN conjunct2, THEN conjunct1, THEN mp,
      OF pre1, THEN conjunct2, THEN conjunct2, THEN conjunct2]
      at(2) broken_fields(9)
    by blast
  have e1: "\<exists>pre r post. ?pre2 @ data_only_mount # [] = pre @ r # post
         \<and> list_all (passed_over m (Some e4)) pre
         \<and> r ''mount'' = Some m \<and> r ''fstype'' = None"
  proof -
    from key_error_on_missing_field [where mounts = "?pre2 @ data_only_mount # []" and m = m
        and fs = "Some e4" and k = "''fstype''",
        THEN conjunct2, THEN conjunct2, THEN conjunct1, THEN mp, OF d3]
    obtain pre r post where *: "?pre2 @ data_only_mount # [] = pre @ r # post"
      "\<forall>p\<in>set pre. passed_over m (Some e4) p"
      "r ''mount'' = None \<and> ''fstype'' = ''mount''
       \<or> r ''mount'' = Some m \<and> Some e4 \<noteq> None \<and> r ''fstype'' = None \<and> ''fstype'' = ''fstype''
       \<or> matches m (Some e4) r \<and> r ''device'' = None \<and> ''fstype'' = ''device''"
      by blast
    from *(3) have "r ''mount'' = Some m \<and> r ''fstype'' = None"
      by simp
    with *(1,2) show ?thesis
      by (auto simp: list_all_iff)
  qed
  have e2: "\<exists>pre r post. ?pre1 @ data_only_mount # [] = pre @ r # post
         \<and> list_all (passed_over m None) pre
         \<and> r ''mount'' = Some m \<and> r ''uuid'' = None"
  proof -
    from key_error_on_missing_field [where mounts = "?pre1 @ data_only_mount # []" and m = m
        and k = "''uuid''",
        THEN conjunct2, THEN conjunct2, THEN conjunct2, THEN mp, OF u3]
    obtain pre r post where *: "?pre1 @ data_only_mount # [] = pre @ r # post"
      "\<forall>p\<in>set pre. passed_over m None p"
      "r ''mount'' = None \<and> ''uuid'' = ''mount''
       \<or> r ''mount'' = Some m \<and> r ''uuid'' = None \<and> ''uuid'' = ''uuid''"
      by blast
    from *(3) have "r ''mount'' = Some m \<and> r ''uuid'' = None"
      by simp
    with *(1,2) show ?thesis
      by (auto simp: list_all_iff)
  qed
  have app: "[a, b] @ x # [] = [a, b, x]" "[a] @ x # [] = [a, x]" for a b x :: mount_record
    by simp_all
  note run = d0 d1 d2 d3 d4 u0 u1 u2 u3 e1 e2
  note facts = run [unfolded app m_def e4_def] over [unfolded m_def e4_def]
    hit [unfolded m_def e4_def]
  show ?thesis
    by (simp only: facts fields simp_thms)
qed

section \<open>Properties of the lookups on the store\<close>

declare device_for_mount_from.simps [simp del] uuid_for_mount_from.simps [simp del]

text \<open>
  Each loop hands back the store it was given, at every exit: the return, the two key
  errors and the lookup failure.
\<close>

lemma device_for_mount_from_store:
  "snd (device_for_mount_from i mountpoint mounts fstype s) = s"
proof (induction i mountpoint mounts fstype s rule: device_for_mount_from.induct)
  case (1 i mountpoint mounts fstype s)
  show ?case
    by (subst device_for_mount_from.simps)
      (use 1 in \<open>auto split: sum.splits option.splits\<close>)
qed

lemma uuid_for_mount_from_store:
  "snd (uuid_for_mount_from i mountpoint mounts s) = s"
proof (induction i mountpoint mounts s rule: uuid_for_mount_from.induct)
  case (1 i mountpoint mounts s)
  show ?case
    by (subst uuid_for_mount_from.simps)
      (use 1 in \<open>auto split: sum.splits\<close>)
qed

text \<open>
  The result on the store is the result of the lookup on the list of the dicts that the
  list object refers to, from the iterator's index on.
\<close>

lemma device_for_mount_from_result:
  "fst (device_for_mount_from i mountpoint mounts fstype s) =
   device_for_mount mountpoint (map (dict_at s) (drop i (list_at s mounts))) fstype"
proof (induction i mountpoint mounts fstype s rule: device_for_mount_from.induct)
  case (1 i mountpoint mounts fstype s)
  show ?case
  proof (cases "i < length (list_at s mounts)")
    case True
    then have step: "drop i (list_at s mounts) = list_at s mounts ! i # drop (Suc i) (list_at s mounts)"
      by (simp add: Cons_nth_drop_Suc)
    show ?thesis
      by (subst device_for_mount_from.simps)
        (use True 1 in \<open>auto simp: step split: sum.splits option.splits\<close>)
  next
    case False
    then show ?thesis
      by (subst device_for_mount_from.simps) simp
  qed
qed

lemma uuid_for_mount_from_result:
  "fst (uuid_for_mount_from i mountpoint mounts s) =
   uuid_for_mount mountpoint (map (dict_at s) (drop i (list_at s mounts)))"
proof (induction i mountpoint mounts s rule: uuid_for_mount_from.induct)
  case (1 i mountpoint mounts s)
  show ?case
  proof (cases "i < length (list_at s mounts)")
    case True
    then have step: "drop i (list_at s mounts) = list_at s mounts ! i # drop (Suc i) (list_at s mounts)"
      by (simp add: Cons_nth_drop_Suc)
    show ?thesis
      by (subst uuid_for_mount_from.simps)
        (use True 1 in \<open>auto simp: step split: sum.splits\<close>)
  next
    case False
    then show ?thesis
      by (subst uuid_for_mount_from.simps) simp
  qed
qed

text \<open>
  C7: a call of \<open>device_for_mount\<close>, \<open>uuid_for_mount\<close> or \<open>to_systemd_mount_unit\<close>
  leaves the store as it found it, whatever the arguments and whether it returns or
  raises: the list of mounts and every record are unchanged. Its result depends on the
  store only through the records the list refers to; it is the result of the lookup on
  those records.
\<close>

theorem filters_leave_store_unchanged:
  "snd (device_for_mount_st mountpoint mounts fstype s) = s
   \<and> snd (uuid_for_mount_st mountpoint mounts s) = s
   \<and> snd (to_systemd_mount_unit_st path s) = s
   \<and> fst (device_for_mount_st mountpoint mounts fstype s) =
       device_for_mount mountpoint (map (dict_at s) (list_at s mounts)) fstype
   \<and> fst (uuid_for_mount_st mountpoint mounts s) =
       uuid_for_mount mountpoint (map (dict_at s) (list_at s mounts))
   \<and> fst (to_systemd_mount_unit_st path s) = to_systemd_mount_unit path"
  by (simp add: device_for_mount_st_def uuid_for_mount_st_def to_systemd_mount_unit_st_def
      device_for_mount_from_store uuid_for_mount_from_store
      device_for_mount_from_result uuid_for_mount_from_result)

section \<open>Properties of the registration\<close>

text \<open>
  C8: the mapping returned by \<^verbatim>\<open>FilterModule.filters\<close> has exactly the three keys
  \<^verbatim>\<open>device_for_mount\<close>, \<^verbatim>\<open>uuid_for_mount\<close> and \<^verbatim>\<open>to_systemd_mount_unit\<close>, each
  bound to the function of that name.
\<close>

theorem filters_registration:
  "dom filters = {''device_for_mount'', ''uuid_for_mount'', ''to_systemd_mount_unit''}
   \<and> filters ''device_for_mount'' = Some (DeviceFilter device_for_mount)
   \<and> filters ''uuid_for_mount'' = Some (UuidFilter uuid_for_mount)
   \<and> filters ''to_systemd_mount_unit'' = Some (UnitFilter to_systemd_mount_unit)"
  by (auto simp: filters_def)

end
